theory Spec2Isabelle
  imports Complex_Main
begin

section \<open>Text operations of the Python sources\<close>

text \<open>
  Texts are modelled as \<^typ>\<open>string\<close>, lists of 8-bit characters. The operations below
  are Python's \<^verbatim>\<open>str\<close> methods as they act on ASCII text: \<^verbatim>\<open>upper\<close> and
  \<^verbatim>\<open>lower\<close> change the 26 letters only, \<^verbatim>\<open>strip\<close> removes the ASCII
  white space of \<^verbatim>\<open>str.isspace\<close> (codes 9 to 13 and 28 to 32) from both ends. A
  character with a code above 127 is left as it is; Python's Unicode case mapping of
  such characters is outside the model.
\<close>

definition ascii_lowercase :: string where
  "ascii_lowercase = ''abcdefghijklmnopqrstuvwxyz''"

definition ascii_uppercase :: string where
  "ascii_uppercase = ''ABCDEFGHIJKLMNOPQRSTUVWXYZ''"

definition whitespace :: string where
  "whitespace =
     [CHR 0x09, CHR 0x0A, CHR 0x0B, CHR 0x0C, CHR 0x0D, CHR 0x1C, CHR 0x1D, CHR 0x1E, CHR 0x1F,
      CHR '' '']"

definition upper_char :: "char \<Rightarrow> char" where
  "upper_char c =
     (case map_of (zip ascii_lowercase ascii_uppercase) c of None \<Rightarrow> c | Some u \<Rightarrow> u)"

definition lower_char :: "char \<Rightarrow> char" where
  "lower_char c =
     (case map_of (zip ascii_uppercase ascii_lowercase) c of None \<Rightarrow> c | Some l \<Rightarrow> l)"

definition upper :: "string \<Rightarrow> string" where
  "upper s = map upper_char s"

definition lower :: "string \<Rightarrow> string" where
  "lower s = map lower_char s"

definition is_space :: "char \<Rightarrow> bool" where
  "is_space c = (c \<in> set whitespace)"

definition lstrip :: "string \<Rightarrow> string" where
  "lstrip s = dropWhile is_space s"

definition rstrip :: "string \<Rightarrow> string" where
  "rstrip s = rev (dropWhile is_space (rev s))"

definition strip :: "string \<Rightarrow> string" where
  "strip s = rstrip (lstrip s)"

text \<open>\<^verbatim>\<open>s.startswith(p)\<close> and \<^verbatim>\<open>p in s\<close>.\<close>

definition startswith :: "string \<Rightarrow> string \<Rightarrow> bool" where
  "startswith s p = (take (length p) s = p)"

fun contains :: "string \<Rightarrow> string \<Rightarrow> bool" where
  "contains [] p = (p = [])"
| "contains (c # cs) p = (startswith (c # cs) p \<or> contains cs p)"

text \<open>
  \<^verbatim>\<open>s.split(sep)\<close> for a non-empty separator: the pieces between the
  non-overlapping occurrences of \<open>sep\<close>, found from the left. \<open>split_acc\<close> carries
  the piece being read, reversed.
\<close>

function split_acc :: "string \<Rightarrow> string \<Rightarrow> string \<Rightarrow> string list" where
  "split_acc sep acc [] = [rev acc]"
| "split_acc sep acc (c # cs) =
     (if sep \<noteq> [] \<and> startswith (c # cs) sep
      then rev acc # split_acc sep [] (drop (length sep) (c # cs))
      else split_acc sep (c # acc) cs)"
  by pat_completeness auto
termination
  by (relation "measure (\<lambda>(sep, acc, s). length s)") (auto simp: startswith_def)

definition split :: "string \<Rightarrow> string \<Rightarrow> string list" where
  "split s sep = split_acc sep [] s"

text \<open>
  \<^verbatim>\<open>s.replace(old, new)\<close> for a non-empty \<open>old\<close>: every non-overlapping
  occurrence, from the left, in one pass.
\<close>

function replace :: "string \<Rightarrow> string \<Rightarrow> string \<Rightarrow> string" where
  "replace [] old new = []"
| "replace (c # cs) old new =
     (if old \<noteq> [] \<and> startswith (c # cs) old
      then new @ replace (drop (length old) (c # cs)) old new
      else c # replace cs old new)"
  by pat_completeness auto
termination
  by (relation "measure (\<lambda>(s, old, new). length s)") (auto simp: startswith_def)

text \<open>\<^verbatim>\<open>xs[i]\<close>, which raises IndexError out of range.\<close>

fun index :: "'a list \<Rightarrow> nat \<Rightarrow> 'a option" where
  "index [] i = None"
| "index (x # xs) 0 = Some x"
| "index (x # xs) (Suc i) = index xs i"

text \<open>Truthiness of an optional text: \<^verbatim>\<open>state.get(k)\<close> is falsy when absent or empty.\<close>

fun truthy :: "string option \<Rightarrow> bool" where
  "truthy None = False"
| "truthy (Some s) = (s \<noteq> [])"

section \<open>Cleaning a generated statement (agents/nodes.py)\<close>

text \<open>
  The lines under the comment \<^verbatim>\<open># Clean SQL\<close> of \<^verbatim>\<open>generate_sql_node\<close>, which
  \<^verbatim>\<open>execute_sql_node\<close> repeats for the repaired statement:
  \<^verbatim>\<open>sql = sql.strip()\<close>, then, if \<^verbatim>\<open>sql.startswith("```")\<close>,
  \<^verbatim>\<open>sql = sql.split("```")[1].replace("sql", "").strip()\<close>. The result is
  \<open>Inl\<close> the exception text when the index is out of range.
\<close>

definition fence :: string where
  "fence = ''```''"

definition clean_sql :: "string \<Rightarrow> string + string" where
  "clean_sql raw =
     (let sql = strip raw in
      if startswith sql fence then
        (case index (split sql fence) 1 of
           None \<Rightarrow> Inl ''list index out of range''
         | Some seg \<Rightarrow> Inr (strip (replace seg ''sql'' '''')))
      else Inr sql)"

text \<open>\<^verbatim>\<open>str(n)\<close> of a natural number, in decimal.\<close>

definition digit_char :: "nat \<Rightarrow> char" where
  "digit_char d = ''0123456789'' ! d"

function str_nat :: "nat \<Rightarrow> string" where
  "str_nat n = (if n < 10 then [digit_char n] else str_nat (n div 10) @ [digit_char (n mod 10)])"
  by pat_completeness auto
termination
  by (relation "measure id") auto

section \<open>The collaborators: text generation, database driver, scorer\<close>

text \<open>
  A fetched row is the list of its cells, as text. The second component of the triple
  that \<^verbatim>\<open>execute_query\<close> returns is either the fetched rows or a text (the success
  message of a write, or the text of an exception).
\<close>

type_synonym row = "string list"

datatype data = Rows "row list" | Text string

fun len :: "data \<Rightarrow> nat" where
  "len (Rows rs) = length rs"
| "len (Text s) = length s"

fun truthy_data :: "data \<Rightarrow> bool" where
  "truthy_data (Rows rs) = (rs \<noteq> [])"
| "truthy_data (Text s) = (s \<noteq> [])"

text \<open>\<^verbatim>\<open>data[:10]\<close>, on a list of rows and on a text.\<close>

fun first_ten :: "data \<Rightarrow> data" where
  "first_ten (Rows rs) = Rows (take 10 rs)"
| "first_ten (Text s) = Text (take 10 s)"

text \<open>
  The \<^verbatim>\<open>results\<close> dictionary of the state. \<^verbatim>\<open>columns\<close> is \<open>None\<close> where the
  source stores Python's \<^verbatim>\<open>None\<close>.
\<close>

record ResultSet =
  columns :: "string list option"
  rows :: data
  row_count :: nat

text \<open>
  A prompt is the template that is filled in, with the values of its variables. The text
  shown to the formatter (\<^verbatim>\<open>rows_text\<close>) is either \<^verbatim>\<open>"No data found"\<close> or the
  columns, the first ten rows and, beyond ten rows, how many more there are.
\<close>

datatype rows_text = NoDataFound | Table "string list option" data "nat option"

datatype prompt =
    ValidationPrompt string
  | GeneratePrompt string string
  | FixPrompt data string string
  | FormatPrompt string string rows_text nat

record sample =
  user_input :: string
  response :: string
  reference :: string

text \<open>
  Every call of a collaborator is recorded, the latest first. \<open>DbExecute q\<close> is a call
  of \<^verbatim>\<open>cursor.execute(q)\<close>, \<open>DbCommit\<close> a call of \<^verbatim>\<open>connection.commit()\<close>.
\<close>

datatype event = LlmCall prompt | DbExecute string | DbCommit | ScoreCall sample

type_synonym history = "event list"

text \<open>
  What the driver does with one statement on a fresh cursor: \<open>on_execute\<close> is the text
  of the exception that obtaining the cursor or \<^verbatim>\<open>cursor.execute\<close> raises, if any
  (a connection that could not be opened shows here); \<open>on_fetch\<close> is the outcome of
  \<^verbatim>\<open>fetchall\<close> and of reading the column names from \<^verbatim>\<open>cursor.description\<close>;
  \<open>on_commit\<close> is the text of the exception that \<^verbatim>\<open>commit\<close> raises, if any.
\<close>

record cursor_run =
  on_execute :: "string option"
  on_fetch :: "string + (row list \<times> string list)"
  on_commit :: "string option"

text \<open>
  The collaborators answer as functions of the calls made so far and of their argument;
  \<open>Inl\<close> is the text of a raised exception. \<open>str_rows\<close> and \<open>str_results\<close> are
  Python's \<^verbatim>\<open>str\<close> of a list of rows and of a \<^verbatim>\<open>results\<close> dictionary,
  \<open>str_score\<close> is the format \<^verbatim>\<open>{score:.2f}\<close>.
\<close>

record env =
  llm :: "history \<Rightarrow> prompt \<Rightarrow> string + string"
  cursor :: "history \<Rightarrow> string \<Rightarrow> cursor_run"
  scorer :: "history \<Rightarrow> sample \<Rightarrow> string + real"
  str_rows :: "row list \<Rightarrow> string"
  str_results :: "ResultSet \<Rightarrow> string"
  str_score :: "real \<Rightarrow> string"

section \<open>The query executor (database/manager.py)\<close>

definition read_prefixes :: "string list" where
  "read_prefixes = [''SELECT'', ''SHOW'', ''DESCRIBE'', ''DESC'', ''EXPLAIN'']"

definition is_read :: "string \<Rightarrow> bool" where
  "is_read query = (let query_upper = upper (strip query) in list_ex (startswith query_upper) read_prefixes)"

text \<open>
  The body of the \<^verbatim>\<open>try\<close> block of \<^verbatim>\<open>execute_query\<close>, which the source writes
  out a second time for the attempt after a reconnect. \<open>Inl\<close> is an exception raised
  in the block, \<open>Inr\<close> the triple it returns.
\<close>

definition run_cursor ::
  "env \<Rightarrow> history \<Rightarrow> string \<Rightarrow> (string + bool \<times> data \<times> string list option) \<times> history" where
  "run_cursor E h query =
     (let r = cursor E h query; h1 = DbExecute query # h in
      case on_execute r of
        Some e \<Rightarrow> (Inl e, h1)
      | None \<Rightarrow>
          if is_read query then
            (case on_fetch r of
               Inl e \<Rightarrow> (Inl e, h1)
             | Inr (fetched, names) \<Rightarrow> (Inr (True, Rows fetched, Some names), h1))
          else
            (case on_commit r of
               Some e \<Rightarrow> (Inl e, DbCommit # h1)
             | None \<Rightarrow> (Inr (True, Text ''Query executed successfully'', None), DbCommit # h1)))"

definition connection_lost :: "string \<Rightarrow> bool" where
  "connection_lost e = (contains (lower e) ''gone away'' \<or> contains (lower e) ''lost connection'')"

definition execute_query ::
  "env \<Rightarrow> history \<Rightarrow> string \<Rightarrow> (bool \<times> data \<times> string list option) \<times> history" where
  "execute_query E h query =
     (case run_cursor E h query of
        (Inr t, h1) \<Rightarrow> (t, h1)
      | (Inl e, h1) \<Rightarrow>
          if connection_lost e then
            (case run_cursor E h1 query of
               (Inr t, h2) \<Rightarrow> (t, h2)
             | (Inl retry_error, h2) \<Rightarrow> ((False, Text retry_error, None), h2))
          else ((False, Text e, None), h1))"


section \<open>The pipeline state (agents/state.py)\<close>

text \<open>
  An item of the message log. The nodes append instances of \<^verbatim>\<open>AIMessage\<close>; the
  error branch of \<^verbatim>\<open>format_answer_node\<close> puts the class \<^verbatim>\<open>AIMessage\<close> itself in
  its list, which is \<open>AIMessage_class\<close> here.
\<close>

datatype message = HumanMessage string | AIMessage string | AIMessage_class

text \<open>The exceptions that leave a node or the merge of its update.\<close>

datatype exn = TypeError | NotImplementedError

text \<open>
  \<^verbatim>\<open>AgentState\<close>. An optional field is \<open>None\<close> while its key is absent from the
  state.
\<close>

record AgentState =
  messages :: "message list"
  user_query :: string
  schema :: string
  sql_query :: "string option"
  results :: "ResultSet option"
  answer :: "string option"
  error :: "string option"
  retry_count :: int
  evaluation_score :: "real option"

text \<open>
  The dictionary a node returns: a field is \<open>Some v\<close> when the dictionary has the key,
  and \<open>u_messages\<close> is the list under the key \<^verbatim>\<open>messages\<close>, empty when the key is
  absent.
\<close>

record update =
  u_messages :: "message list"
  u_sql_query :: "string option"
  u_results :: "ResultSet option"
  u_answer :: "string option"
  u_error :: "string option"
  u_retry_count :: "int option"
  u_evaluation_score :: "real option"

definition no_update :: update where
  "no_update =
     \<lparr>u_messages = [], u_sql_query = None, u_results = None, u_answer = None, u_error = None,
      u_retry_count = None, u_evaluation_score = None\<rparr>"

fun overwrite :: "'a option \<Rightarrow> 'a option \<Rightarrow> 'a option" where
  "overwrite old None = old"
| "overwrite old (Some v) = Some v"

text \<open>
  \<^verbatim>\<open>add_messages\<close>, the reducer that state.py gives the message log: it converts
  every new item to a message and appends it. The conversion takes a message, a text,
  a pair or a dictionary and raises \<^verbatim>\<open>NotImplementedError\<close> on anything else; a class
  is none of them.
\<close>

fun is_message :: "message \<Rightarrow> bool" where
  "is_message (HumanMessage c) = True"
| "is_message (AIMessage c) = True"
| "is_message AIMessage_class = False"

definition add_messages :: "message list \<Rightarrow> message list \<Rightarrow> exn + message list" where
  "add_messages left right =
     (if list_all is_message right then Inr (left @ right) else Inl NotImplementedError)"

text \<open>
  The graph writes an update into the state: the message log through its reducer, every
  other key present over the old value.
\<close>

definition merge :: "AgentState \<Rightarrow> update \<Rightarrow> exn + AgentState" where
  "merge state u =
     (case add_messages (messages state) (u_messages u) of
        Inl x \<Rightarrow> Inl x
      | Inr ms \<Rightarrow>
          Inr (state\<lparr>messages := ms,
                     sql_query := overwrite (sql_query state) (u_sql_query u),
                     results := overwrite (results state) (u_results u),
                     answer := overwrite (answer state) (u_answer u),
                     error := overwrite (error state) (u_error u),
                     retry_count :=
                       (case u_retry_count u of None \<Rightarrow> retry_count state | Some n \<Rightarrow> n),
                     evaluation_score :=
                       overwrite (evaluation_score state) (u_evaluation_score u)\<rparr>))"

text \<open>The state the caller starts a run with (ui.py).\<close>

definition initial_state :: "string \<Rightarrow> string \<Rightarrow> AgentState" where
  "initial_state q sch =
     \<lparr>messages = [HumanMessage q], user_query = q, schema = sch, sql_query = None,
      results = None, answer = None, error = None, retry_count = 0, evaluation_score = None\<rparr>"

section \<open>The nodes (agents/nodes.py)\<close>

definition generate_sql_node :: "env \<Rightarrow> AgentState \<Rightarrow> history \<Rightarrow> update \<times> history" where
  "generate_sql_node E state h =
     (let p = GeneratePrompt (schema state) (user_query state); h1 = LlmCall p # h in
      case llm E h p of
        Inl e \<Rightarrow>
          (no_update\<lparr>u_error := Some (''SQL generation failed : '' @ e),
                     u_messages := [AIMessage (''Error : '' @ e)]\<rparr>, h1)
      | Inr raw \<Rightarrow>
          (case clean_sql raw of
             Inl e \<Rightarrow>
               (no_update\<lparr>u_error := Some (''SQL generation failed : '' @ e),
                          u_messages := [AIMessage (''Error : '' @ e)]\<rparr>, h1)
           | Inr sql \<Rightarrow>
               (no_update\<lparr>u_sql_query := Some sql,
                          u_messages := [AIMessage ''SQL generated'']\<rparr>, h1)))"

text \<open>The safety check of \<^verbatim>\<open>execute_sql_node\<close>.\<close>

definition dangerous :: "string list" where
  "dangerous = [''DROP'', ''DELETE'', ''UPDATE'', ''INSERT'']"

definition unsafe_sql :: "string \<Rightarrow> bool" where
  "unsafe_sql sql =
     (let sql_upper = upper sql in
      \<not> startswith sql_upper ''SELECT'' \<and> list_ex (contains sql_upper) dangerous)"

text \<open>\<^verbatim>\<open>f"{data}"\<close>.\<close>

fun str_data :: "env \<Rightarrow> data \<Rightarrow> string" where
  "str_data E (Text s) = s"
| "str_data E (Rows rs) = str_rows E rs"

text \<open>\<^verbatim>\<open>if columns\<close>: neither \<^verbatim>\<open>None\<close> nor the empty list.\<close>

fun truthy_columns :: "string list option \<Rightarrow> bool" where
  "truthy_columns None = False"
| "truthy_columns (Some cs) = (cs \<noteq> [])"

text \<open>
  The end of \<^verbatim>\<open>execute_sql_node\<close>, from \<^verbatim>\<open>if success:\<close> on: the update for the
  triple that the last call of \<^verbatim>\<open>execute_query\<close> returned.
\<close>

definition execution_update :: "env \<Rightarrow> int \<Rightarrow> bool \<times> data \<times> string list option \<Rightarrow> update" where
  "execution_update E rc t =
     (case t of (success, dat, cols) \<Rightarrow>
        if success then
          no_update\<lparr>u_results := Some
            \<lparr>columns = (if truthy_columns cols then cols else Some []),
             rows = (if truthy_columns cols then dat else Rows []),
             row_count = (if truthy_columns cols then len dat else 0)\<rparr>,
            u_messages := [AIMessage ''Query executed successfully'']\<rparr>
        else
          no_update\<lparr>u_error := Some (''Execution failed : '' @ str_data E dat),
                    u_retry_count := Some (rc + 1),
                    u_messages := [AIMessage (''Error: '' @ str_data E dat)]\<rparr>)"

definition execute_sql_node :: "env \<Rightarrow> AgentState \<Rightarrow> history \<Rightarrow> update \<times> history" where
  "execute_sql_node E state h =
     (if \<not> truthy (sql_query state) then (no_update\<lparr>u_error := Some ''No SQL to execute''\<rparr>, h)
      else
        case sql_query state of
          None \<Rightarrow> (no_update\<lparr>u_error := Some ''No SQL to execute''\<rparr>, h)
        | Some sql \<Rightarrow>
            if unsafe_sql sql then (no_update\<lparr>u_error := Some ''Unsafe SQL detected''\<rparr>, h)
            else
              case execute_query E h sql of
                ((success, dat, cols), h1) \<Rightarrow>
                  if \<not> success \<and> retry_count state < 2 then
                    (let p = FixPrompt dat sql (schema state); h2 = LlmCall p # h1 in
                     case llm E h1 p of
                       Inl e \<Rightarrow> (execution_update E (retry_count state) (success, dat, cols), h2)
                     | Inr raw \<Rightarrow>
                         (case clean_sql raw of
                            Inl e \<Rightarrow> (execution_update E (retry_count state) (success, dat, cols), h2)
                          | Inr fixed_sql \<Rightarrow>
                              (case execute_query E h2 fixed_sql of
                                 ((success2, dat2, cols2), h3) \<Rightarrow>
                                   if success2 then
                                     (no_update\<lparr>u_results := Some
                                        \<lparr>columns = cols2, rows = dat2, row_count = len dat2\<rparr>,
                                        u_sql_query := Some fixed_sql,
                                        u_retry_count := Some (retry_count state + 1),
                                        u_messages := [AIMessage ''Query executed after retry'']\<rparr>, h3)
                                   else
                                     (execution_update E (retry_count state) (success2, dat2, cols2), h3))))
                  else (execution_update E (retry_count state) (success, dat, cols), h1))"

definition format_answer_node :: "env \<Rightarrow> AgentState \<Rightarrow> history \<Rightarrow> update \<times> history" where
  "format_answer_node E state h =
     (if truthy (error state) then
        (no_update\<lparr>u_answer := Some
           (''I encountered an error '' @ (case error state of Some e \<Rightarrow> e | None \<Rightarrow> ''None'')),
           u_messages := [AIMessage_class]\<rparr>, h)
      else
          (case results state of
             None \<Rightarrow>
               (no_update\<lparr>u_answer := Some ''No results to display'',
                          u_messages := [AIMessage ''No results'']\<rparr>, h)
           | Some res \<Rightarrow>
               (let rows_text =
                      (if truthy_data (rows res) then
                         Table (columns res) (first_ten (rows res))
                           (if row_count res > 10 then Some (row_count res - 10) else None)
                       else NoDataFound);
                    basic = no_update\<lparr>u_answer := Some
                      (''Results '' @ str_nat (row_count res) @ '' rows found''),
                      u_messages := [AIMessage ''Basic answer provided'']\<rparr>
                in
                case sql_query state of
                  None \<Rightarrow> (basic, h)
                | Some sql \<Rightarrow>
                    (let p = FormatPrompt (user_query state) sql rows_text (row_count res) in
                     case llm E h p of
                       Inl e \<Rightarrow> (basic, LlmCall p # h)
                     | Inr a \<Rightarrow>
                         (no_update\<lparr>u_answer := Some a,
                                    u_messages := [AIMessage ''Answer formatted'']\<rparr>,
                          LlmCall p # h)))))"

text \<open>
  \<^verbatim>\<open>evaluate_node\<close>. The scorer raising stands for every exception of the
  \<^verbatim>\<open>try\<close> block, all of which the node swallows.
\<close>

definition evaluate_node :: "env \<Rightarrow> AgentState \<Rightarrow> history \<Rightarrow> update \<times> history" where
  "evaluate_node E state h =
     (if \<not> truthy (answer state) \<or> \<not> truthy (sql_query state)
      then (no_update\<lparr>u_messages := [AIMessage ''Skipping evaluation'']\<rparr>, h)
      else
        case (answer state, sql_query state) of
          (Some a, Some sql) \<Rightarrow>
            (let results_retrieved =
                   (case results state of None \<Rightarrow> ''None'' | Some res \<Rightarrow> str_results E res);
                 smp = \<lparr>user_input = user_query state, response = a,
                        reference = ''SQL: '' @ sql @ [CHR 0x0A] @
                          ''Results Retrieved after execution of Query: '' @ results_retrieved\<rparr>
             in
             case scorer E h smp of
               Inl e \<Rightarrow>
                 (no_update\<lparr>u_messages := [AIMessage ''Evaluation skipped'']\<rparr>, ScoreCall smp # h)
             | Inr score \<Rightarrow>
                 (no_update\<lparr>u_evaluation_score := Some score,
                            u_messages := [AIMessage (''Evaluation: '' @ str_score E score)]\<rparr>,
                  ScoreCall smp # h))
        | _ \<Rightarrow> (no_update\<lparr>u_messages := [AIMessage ''Skipping evaluation'']\<rparr>, h))"

section \<open>The graph (agents/graph.py)\<close>

datatype node = GENERATE_SQL | EXECUTE_SQL | FORMAT_ANSWER | EVALUATE | DONE

definition check_execution :: "AgentState \<Rightarrow> node" where
  "check_execution state =
     (if truthy (error state) \<and> retry_count state < 2 then GENERATE_SQL else FORMAT_ANSWER)"

text \<open>
  A call that leaves out a required positional parameter raises \<^verbatim>\<open>TypeError\<close> before
  the body of the function runs; the argument is the body that does not run.
\<close>

definition missing_argument :: "'a \<Rightarrow> exn + 'a" where
  "missing_argument body = Inl TypeError"

text \<open>
  The callables that \<^verbatim>\<open>create_graph\<close> registers. The four nodes have the required
  parameter \<^verbatim>\<open>llm\<close>. \<^verbatim>\<open>generate_sql\<close> and \<^verbatim>\<open>execute_sql\<close> are the functions
  \<^verbatim>\<open>lambda state: generate_sql_node(state, db)\<close> and
  \<^verbatim>\<open>lambda state: execute_sql_node(state, db)\<close>, which pass no \<^verbatim>\<open>llm\<close>;
  \<^verbatim>\<open>format_answer_node\<close> and \<^verbatim>\<open>evaluate_node\<close> are registered as they are, and the
  graph calls a node with the state alone. \<^verbatim>\<open>END\<close> runs nothing.
\<close>

fun graph_node :: "env \<Rightarrow> node \<Rightarrow> AgentState \<Rightarrow> history \<Rightarrow> exn + update \<times> history" where
  "graph_node E GENERATE_SQL state h = missing_argument (generate_sql_node E state h)"
| "graph_node E EXECUTE_SQL state h = missing_argument (execute_sql_node E state h)"
| "graph_node E FORMAT_ANSWER state h = missing_argument (format_answer_node E state h)"
| "graph_node E EVALUATE state h = missing_argument (evaluate_node E state h)"
| "graph_node E DONE state h = Inr (no_update, h)"

text \<open>The edges: fixed ones, and the router after \<^verbatim>\<open>execute_sql\<close>.\<close>

fun next_node :: "node \<Rightarrow> AgentState \<Rightarrow> node" where
  "next_node GENERATE_SQL state = EXECUTE_SQL"
| "next_node EXECUTE_SQL state = check_execution state"
| "next_node FORMAT_ANSWER state = EVALUATE"
| "next_node EVALUATE state = DONE"
| "next_node DONE state = DONE"

text \<open>
  How a run ends: at \<^verbatim>\<open>END\<close>, or with an exception that a node or the merge of its
  update raises. Both carry the last state, the snapshots that the checkpointer has
  saved (one after each node, the latest first) and the calls made.
\<close>

datatype outcome =
    Finished AgentState "AgentState list" history
  | Raised exn AgentState "AgentState list" history

text \<open>
  A run of the compiled graph from a node on. The first argument bounds the number of
  nodes that may still run; the run is \<open>None\<close> when the bound is reached before the run
  has ended.
\<close>

fun run_graph ::
  "env \<Rightarrow> nat \<Rightarrow> node \<Rightarrow> AgentState \<Rightarrow> AgentState list \<Rightarrow> history \<Rightarrow> outcome option" where
  "run_graph E n DONE state cps h = Some (Finished state cps h)"
| "run_graph E 0 nd state cps h = None"
| "run_graph E (Suc n) nd state cps h =
     (case graph_node E nd state h of
        Inl x \<Rightarrow> Some (Raised x state cps h)
      | Inr (u, h1) \<Rightarrow>
          (case merge state u of
             Inl x \<Rightarrow> Some (Raised x state cps h1)
           | Inr state' \<Rightarrow> run_graph E n (next_node nd state') state' (state' # cps) h1))"

definition llm_calls :: "history \<Rightarrow> nat" where
  "llm_calls h = length (filter (\<lambda>ev. case ev of LlmCall p \<Rightarrow> True | _ \<Rightarrow> False) h)"

section \<open>The gate before the pipeline (utils/validator.py)\<close>

text \<open>
  \<^verbatim>\<open>re.compile(r"^TRUE$", re.IGNORECASE).match(result)\<close>: the whole text is
  \<^verbatim>\<open>TRUE\<close> in any case, or that followed by one line feed, before which \<^verbatim>\<open>$\<close>
  matches too.
\<close>

definition true_pattern_match :: "string \<Rightarrow> bool" where
  "true_pattern_match result = (upper result = ''TRUE'' \<or> upper result = ''TRUE'' @ [CHR 0x0A])"

text \<open>\<^verbatim>\<open>re.sub(r"[^A-Z]", "", s)\<close>.\<close>

definition sub_non_AZ :: "string \<Rightarrow> string" where
  "sub_non_AZ s = filter (\<lambda>c. c \<in> set ascii_uppercase) s"

definition validate_query :: "env \<Rightarrow> history \<Rightarrow> string \<Rightarrow> (bool \<times> string option) \<times> history" where
  "validate_query E h query =
     (let p = ValidationPrompt query; h1 = LlmCall p # h in
      case llm E h p of
        Inl e \<Rightarrow> ((True, None), h1)
      | Inr raw \<Rightarrow>
          (let result = strip raw in
           if true_pattern_match result then ((True, None), h1)
           else if contains (upper result) ''TRUE'' \<and> length result < 10 then
             (let cleaned = sub_non_AZ (upper result) in
              if cleaned = ''TRUE'' then ((True, None), h1) else ((False, Some result), h1))
           else ((False, Some result), h1)))"

section \<open>Example collaborators\<close>

text \<open>Concrete collaborators, on which the theorems below are evaluated.\<close>

definition raising :: "string \<Rightarrow> cursor_run" where
  "raising msg = \<lparr>on_execute = Some msg, on_fetch = Inl msg, on_commit = Some msg\<rparr>"

definition working :: "row list \<Rightarrow> string list \<Rightarrow> cursor_run" where
  "working fetched names = \<lparr>on_execute = None, on_fetch = Inr (fetched, names), on_commit = None\<rparr>"

definition example_env ::
  "(history \<Rightarrow> prompt \<Rightarrow> string + string) \<Rightarrow> (history \<Rightarrow> string \<Rightarrow> cursor_run) \<Rightarrow> env" where
  "example_env l c =
     \<lparr>llm = l, cursor = c, scorer = (\<lambda>h smp. Inr (1 / 2)),
      str_rows = (\<lambda>rs. ''[...]''), str_results = (\<lambda>res. ''{...}''),
      str_score = (\<lambda>x. ''0.50'')\<rparr>"

text \<open>A backend with one fixed answer, and a database that runs every statement.\<close>

definition env_reply :: "string + string \<Rightarrow> env" where
  "env_reply r = example_env (\<lambda>h p. r) (\<lambda>h q. working [] [''id''])"

text \<open>A database that fails on every statement.\<close>

definition env_db_down :: env where
  "env_db_down =
     example_env
       (\<lambda>h p. case p of
          GeneratePrompt sch q \<Rightarrow> Inr ''SELECT name FROM students''
        | FixPrompt d q sch \<Rightarrow> Inr ''SELECT name FROM students LIMIT 5''
        | _ \<Rightarrow> Inr ''ok'')
       (\<lambda>h q. raising ''Unknown database school'')"

text \<open>
  A database without the table \<^verbatim>\<open>studnts\<close>, and a backend that answers every prompt
  with the given text.
\<close>

definition env_repair :: "string \<Rightarrow> env" where
  "env_repair reply =
     example_env (\<lambda>h p. Inr reply)
       (\<lambda>h q. if q = ''SELECT * FROM studnts'' then raising ''Unknown table studnts''
              else working [] [''id''])"

text \<open>
  A database with the one table \<^verbatim>\<open>students\<close>, and a backend that names the table
  wrongly when it generates and rightly when it repairs.
\<close>

definition env_one_table :: env where
  "env_one_table =
     example_env
       (\<lambda>h p. case p of
          GeneratePrompt sch q \<Rightarrow> Inr ''SELECT name FROM student''
        | FixPrompt d q sch \<Rightarrow> Inr ''SELECT name FROM students''
        | _ \<Rightarrow> Inr ''There is one student, Ann.'')
       (\<lambda>h q. if q = ''SELECT name FROM students'' then working [[''Ann'']] [''name'']
              else raising ''Unknown table'')"

text \<open>The state in which the execution node finds the statement \<open>S\<close>.\<close>

definition st_gate :: "string \<Rightarrow> AgentState" where
  "st_gate S = (initial_state ''q'' ''s'')\<lparr>sql_query := Some S\<rparr>"

text \<open>The state in which the execution node finds a statement on a misspelt table.\<close>

definition st_typo :: AgentState where
  "st_typo = st_gate ''SELECT * FROM studnts''"

text \<open>
  The state after one failed round with the database that is down, and after two; the
  message log is the one those rounds leave.
\<close>

definition st_failed_once :: AgentState where
  "st_failed_once =
     (initial_state ''List the students'' ''TABLE: students'')
       \<lparr>messages := [HumanMessage ''List the students'', AIMessage ''SQL generated'',
                     AIMessage ''Error: Unknown database school''],
        sql_query := Some ''SELECT name FROM students'',
        error := Some ''Execution failed : Unknown database school'', retry_count := 1\<rparr>"


definition st_failed_twice :: AgentState where
  "st_failed_twice =
     st_failed_once
       \<lparr>messages := [HumanMessage ''List the students'', AIMessage ''SQL generated'',
                     AIMessage ''Error: Unknown database school'', AIMessage ''SQL generated'',
                     AIMessage ''Error: Unknown database school''],
        retry_count := 2\<rparr>"

text \<open>
  The state after one failed round with the database of one table: the statement on
  the table \<^verbatim>\<open>student\<close> has failed, and so has its repair.
\<close>

definition st_stale :: AgentState where
  "st_stale =
     (initial_state ''List the students'' ''TABLE: students'')
       \<lparr>messages := [HumanMessage ''List the students'', AIMessage ''SQL generated'',
                     AIMessage ''Error: Unknown table''],
        sql_query := Some ''SELECT name FROM student'',
        error := Some ''Execution failed : Unknown table'', retry_count := 1\<rparr>"

text \<open>That state once the repaired statement has run and its update is written.\<close>

definition st_repaired :: AgentState where
  "st_repaired =
     st_stale
       \<lparr>messages := [HumanMessage ''List the students'', AIMessage ''SQL generated'',
                     AIMessage ''Error: Unknown table'', AIMessage ''Query executed after retry''],
        sql_query := Some ''SELECT name FROM students'',
        results := Some \<lparr>columns = Some [''name''], rows = Rows [[''Ann'']], row_count = 1\<rparr>,
        retry_count := 2\<rparr>"

section \<open>The matching rule of the gate, in the words of the specification\<close>

text \<open>
  The specification's rule for the gate before the pipeline: the trimmed output is
  \<^verbatim>\<open>TRUE\<close> in any case, or it contains \<^verbatim>\<open>TRUE\<close> in any case and has fewer than
  ten characters once every character that is not a letter is removed.
\<close>

definition spec_gate_accepts :: "string \<Rightarrow> bool" where
  "spec_gate_accepts out =
     (upper (strip out) = ''TRUE'' \<or>
      (contains (upper (strip out)) ''TRUE'' \<and> length (sub_non_AZ (upper (strip out))) < 10))"

section \<open>Evaluation rules\<close>

lemmas str_defs =
  upper_def upper_char_def lower_def lower_char_def ascii_lowercase_def ascii_uppercase_def
  whitespace_def is_space_def strip_def lstrip_def rstrip_def startswith_def split_def fence_def

lemmas env_defs = example_env_def raising_def working_def

section \<open>Facts about the text operations\<close>

lemma upper_char_newline: "upper_char c = CHR 0x0A \<Longrightarrow> c = CHR 0x0A"
  by (simp add: upper_char_def ascii_lowercase_def ascii_uppercase_def split: if_splits)

lemma rstrip_last: "rstrip s \<noteq> [] \<Longrightarrow> \<not> is_space (last (rstrip s))"
proof -
  assume "rstrip s \<noteq> []"
  then have d: "dropWhile is_space (rev s) \<noteq> []"
    by (simp add: rstrip_def)
  then have "\<not> is_space (hd (dropWhile is_space (rev s)))"
    by (rule hd_dropWhile)
  with d show ?thesis
    by (simp add: rstrip_def last_rev)
qed

text \<open>A trimmed text does not end in a line feed, so \<^verbatim>\<open>$\<close> matches at its end only.\<close>

lemma strip_not_true_newline: "upper (strip raw) \<noteq> ''TRUE'' @ [CHR 0x0A]"
proof
  assume a: "upper (strip raw) = ''TRUE'' @ [CHR 0x0A]"
  then have ne: "strip raw \<noteq> []"
    by (auto simp: upper_def)
  from a have "last (upper (strip raw)) = CHR 0x0A"
    by simp
  with ne have "upper_char (last (strip raw)) = CHR 0x0A"
    by (simp add: upper_def last_map)
  then have "last (strip raw) = CHR 0x0A"
    by (rule upper_char_newline)
  moreover from ne have "\<not> is_space (last (strip raw))"
    unfolding strip_def by (rule rstrip_last)
  ultimately show False
    by (simp add: is_space_def whitespace_def)
qed

text \<open>
  Trimming keeps a leading \<^verbatim>\<open>SELECT\<close>: a statement whose upper-cased text begins
  with it begins with a letter, and \<^verbatim>\<open>strip\<close> removes nothing before the last
  character that is not white space.
\<close>

lemma upper_letter_not_space: "upper_char c \<in> set ascii_uppercase \<Longrightarrow> \<not> is_space c"
  by (auto simp: is_space_def whitespace_def upper_char_def ascii_uppercase_def ascii_lowercase_def)

lemma rstrip_prefix:
  assumes "xs \<noteq> []" "\<not> is_space (last xs)"
  shows "rstrip (xs @ ys) = xs @ rstrip ys"
proof -
  from assms have h: "\<not> is_space (hd (rev xs))" "rev xs \<noteq> []"
    by (simp_all add: hd_rev)
  then have d: "dropWhile is_space (rev xs) = rev xs"
    by (cases "rev xs") auto
  show ?thesis
    by (auto simp: rstrip_def dropWhile_append d)
qed

lemma select_survives_strip:
  assumes "startswith (upper S) ''SELECT''"
  shows "startswith (upper (strip S)) ''SELECT''"
proof -
  define xs where "xs = take (length ''SELECT'') S"
  define ys where "ys = drop (length ''SELECT'') S"
  have S: "S = xs @ ys"
    by (simp add: xs_def ys_def)
  from assms have u: "upper xs = ''SELECT''"
    by (simp add: startswith_def upper_def xs_def take_map)
  then have "length (upper xs) = length ''SELECT''"
    by (rule arg_cong)
  then have len: "length xs = length ''SELECT''"
    by (simp add: upper_def)
  then have ne: "xs \<noteq> []"
    by auto
  from u have "hd (upper xs) = CHR ''S''" "last (upper xs) = CHR ''T''"
    by simp_all
  with ne have "upper_char (hd xs) = CHR ''S''" "upper_char (last xs) = CHR ''T''"
    by (simp_all add: upper_def hd_map last_map)
  then have sp: "\<not> is_space (hd xs)" "\<not> is_space (last xs)"
    by (auto intro!: upper_letter_not_space simp: ascii_uppercase_def)
  from sp(1) ne have l: "lstrip S = S"
    unfolding S lstrip_def by (cases xs) auto
  have r: "rstrip S = xs @ rstrip ys"
    unfolding S using ne sp(2) by (rule rstrip_prefix)
  have "take (length ''SELECT'') (upper (strip S)) = upper xs"
    unfolding strip_def l r upper_def using len by simp
  with u show ?thesis
    by (simp add: startswith_def)
qed

section \<open>C7: cleaning a fenced answer\<close>

text \<open>The example of the specification: the fence and the language tag are removed.\<close>

lemma clean_sql_spec_example:
  "clean_sql (''```sql'' @ [CHR 0x0A] @ ''SELECT * FROM t'' @ [CHR 0x0A] @ ''```'')
     = Inr ''SELECT * FROM t''"
  by (simp add: clean_sql_def str_defs)

text \<open>
  C7. The cleanup is to remove the fence and a leading language tag and to leave the
  statement as it is. \<^verbatim>\<open>replace("sql", "")\<close> removes every lower-case \<^verbatim>\<open>sql\<close> of
  the fenced segment instead: a statement on the table \<^verbatim>\<open>sql_log\<close> comes out as a
  statement on \<^verbatim>\<open>_log\<close>.
\<close>

theorem clean_sql_removes_sql_inside_statement:
  "clean_sql (''```sql'' @ [CHR 0x0A] @ ''SELECT * FROM sql_log'' @ [CHR 0x0A] @ ''```'')
     = Inr ''SELECT * FROM _log''"
  by (simp add: clean_sql_def str_defs)

section \<open>C8: the gate before the pipeline\<close>

text \<open>
  C8, as the code has it. When the backend answers, \<^verbatim>\<open>validate_query\<close> returns
  \<^verbatim>\<open>(True, None)\<close> exactly when the trimmed answer is \<^verbatim>\<open>TRUE\<close> in any case, or
  contains \<^verbatim>\<open>TRUE\<close> in any case, has fewer than ten characters as it stands, and is
  exactly \<^verbatim>\<open>TRUE\<close> once upper-cased and rid of every character outside A to Z;
  otherwise it returns \<^verbatim>\<open>False\<close> with the trimmed answer. When the backend raises, it
  returns \<^verbatim>\<open>(True, None)\<close>.
\<close>

theorem validate_query_rule:
  "(llm E h (ValidationPrompt query) = Inr raw \<longrightarrow>
      fst (validate_query E h query) =
        (if upper (strip raw) = ''TRUE'' \<or>
            (contains (upper (strip raw)) ''TRUE'' \<and> length (strip raw) < 10 \<and>
             sub_non_AZ (upper (strip raw)) = ''TRUE'')
         then (True, None) else (False, Some (strip raw)))) \<and>
   (llm E h (ValidationPrompt query) = Inl e \<longrightarrow> fst (validate_query E h query) = (True, None))"
  by (auto simp: validate_query_def true_pattern_match_def strip_not_true_newline [simplified] Let_def)

theorem validate_query_rule_witness:
  "fst (validate_query (env_reply (Inr ''  TRUE. '')) [] ''Show me all students'') = (True, None) \<and>
   fst (validate_query (env_reply (Inr ''true'')) [] ''Show me all students'') = (True, None) \<and>
   fst (validate_query (env_reply (Inr ''Hello! What data would you like?'')) [] ''asdfgh123'')
     = (False, Some ''Hello! What data would you like?'') \<and>
   fst (validate_query (env_reply (Inl ''timeout'')) [] ''asdfgh123'') = (True, None)"
  using
    validate_query_rule [of "env_reply (Inr ''  TRUE. '')" "[]" "''Show me all students''"
      "''  TRUE. ''" "''x''"]
    validate_query_rule [of "env_reply (Inr ''true'')" "[]" "''Show me all students''"
      "''true''" "''x''"]
    validate_query_rule [of "env_reply (Inr ''Hello! What data would you like?'')" "[]"
      "''asdfgh123''" "''Hello! What data would you like?''" "''x''"]
    validate_query_rule [of "env_reply (Inl ''timeout'')" "[]" "''asdfgh123''" "''x''" "''timeout''"]
  by (simp add: env_defs env_reply_def str_defs sub_non_AZ_def)

text \<open>
  The rule in the words of the specification accepts the answer \<^verbatim>\<open>Not true\<close>, which
  contains \<^verbatim>\<open>TRUE\<close> and has seven letters; the code returns it as a refusal.
\<close>

theorem validate_query_spec_rule_counterexample:
  "spec_gate_accepts ''Not true'' \<and>
   fst (validate_query (env_reply (Inr ''Not true'')) [] ''Is it so?'') = (False, Some ''Not true'')"
  by (simp add: spec_gate_accepts_def validate_query_def true_pattern_match_def env_defs env_reply_def str_defs
      sub_non_AZ_def)

section \<open>Facts about the executor and the execution node\<close>

text \<open>Every call of the executor passes its statement to the driver and forgets no call.\<close>

lemma execute_query_logs: "execute_query E h q = (t, h') \<Longrightarrow> DbExecute q \<in> set h'"
  by (auto simp: execute_query_def run_cursor_def Let_def
      split: option.splits sum.splits if_splits prod.splits)

lemma execute_query_keeps: "execute_query E h q = (t, h') \<Longrightarrow> x \<in> set h \<Longrightarrow> x \<in> set h'"
  by (auto simp: execute_query_def run_cursor_def Let_def
      split: option.splits sum.splits if_splits prod.splits)

lemma execution_update_error:
  "u_error (execution_update E rc t) \<noteq> Some ''Unsafe SQL detected''"
  by (auto simp: execution_update_def no_update_def split: prod.splits)

lemma startswith_nonempty: "startswith (upper S) ''SELECT'' \<Longrightarrow> S \<noteq> []"
  by (auto simp: startswith_def upper_def)

text \<open>A statement that passes the safety check reaches the driver.\<close>

lemma execute_sql_node_passed:
  assumes "sql_query state = Some S" "S \<noteq> []" "\<not> unsafe_sql S"
  shows "DbExecute S \<in> set (snd (execute_sql_node E state h)) \<and>
         u_error (fst (execute_sql_node E state h)) \<noteq> Some ''Unsafe SQL detected''"
proof -
  obtain success dat cols h1 where e: "execute_query E h S = ((success, dat, cols), h1)"
    by (metis prod_cases3 surj_pair)
  then have m: "DbExecute S \<in> set h1"
    by (rule execute_query_logs)
  show ?thesis
    using assms e m
    by (auto simp: execute_sql_node_def Let_def execution_update_error no_update_def
        split: sum.splits prod.splits dest: execute_query_keeps)
qed

section \<open>C1: the safety check\<close>

text \<open>
  C1, as the code has it. The check reads the statement as it stands in the state,
  upper-cased and not trimmed. A statement whose upper-cased text begins with
  \<^verbatim>\<open>SELECT\<close> is never rejected: it is passed to the driver, and the error of the
  node is not \<^verbatim>\<open>Unsafe SQL detected\<close>. A statement whose upper-cased text does not
  begin with \<^verbatim>\<open>SELECT\<close> and contains \<^verbatim>\<open>DROP\<close>, \<^verbatim>\<open>DELETE\<close>, \<^verbatim>\<open>UPDATE\<close> or
  \<^verbatim>\<open>INSERT\<close> is rejected with the error \<^verbatim>\<open>Unsafe SQL detected\<close>, and no
  collaborator is called.
\<close>

theorem safety_gate:
  assumes "sql_query state = Some S"
  shows "(startswith (upper S) ''SELECT'' \<longrightarrow>
            u_error (fst (execute_sql_node E state h)) \<noteq> Some ''Unsafe SQL detected'' \<and>
            DbExecute S \<in> set (snd (execute_sql_node E state h))) \<and>
         (\<not> startswith (upper S) ''SELECT'' \<and>
          (contains (upper S) ''DROP'' \<or> contains (upper S) ''DELETE'' \<or>
           contains (upper S) ''UPDATE'' \<or> contains (upper S) ''INSERT'') \<longrightarrow>
            execute_sql_node E state h = (no_update\<lparr>u_error := Some ''Unsafe SQL detected''\<rparr>, h))"
proof (intro conjI impI)
  assume sel: "startswith (upper S) ''SELECT''"
  then have "S \<noteq> []"
    by (rule startswith_nonempty)
  moreover from sel have "\<not> unsafe_sql S"
    by (simp add: unsafe_sql_def)
  ultimately have p: "DbExecute S \<in> set (snd (execute_sql_node E state h)) \<and>
         u_error (fst (execute_sql_node E state h)) \<noteq> Some ''Unsafe SQL detected''"
    using assms by (intro execute_sql_node_passed) auto
  from p show "u_error (fst (execute_sql_node E state h)) \<noteq> Some ''Unsafe SQL detected''"
    by simp
  from p show "DbExecute S \<in> set (snd (execute_sql_node E state h))"
    by simp
next
  assume a: "\<not> startswith (upper S) ''SELECT'' \<and>
          (contains (upper S) ''DROP'' \<or> contains (upper S) ''DELETE'' \<or>
           contains (upper S) ''UPDATE'' \<or> contains (upper S) ''INSERT'')"
  then have u: "unsafe_sql S"
    by (auto simp: unsafe_sql_def dangerous_def)
  from a have "S \<noteq> []"
    by (auto simp: upper_def)
  with u assms
  show "execute_sql_node E state h = (no_update\<lparr>u_error := Some ''Unsafe SQL detected''\<rparr>, h)"
    by (simp add: execute_sql_node_def)
qed

theorem safety_gate_witness:
  "startswith (upper ''SELECT updated_at FROM t'') ''SELECT'' \<and>
   DbExecute ''SELECT updated_at FROM t''
     \<in> set (snd (execute_sql_node (env_reply (Inr ''ok'')) (st_gate ''SELECT updated_at FROM t'') [])) \<and>
   \<not> startswith (upper ''drop table t'') ''SELECT'' \<and> contains (upper ''drop table t'') ''DROP'' \<and>
   execute_sql_node (env_reply (Inr ''ok'')) (st_gate ''drop table t'') []
     = (no_update\<lparr>u_error := Some ''Unsafe SQL detected''\<rparr>, [])"
proof -
  have a: "startswith (upper ''SELECT updated_at FROM t'') ''SELECT''"
    by (simp add: str_defs)
  have b: "\<not> startswith (upper ''drop table t'') ''SELECT''"
    and c: "contains (upper ''drop table t'') ''DROP''"
    by (simp_all add: str_defs)
  have s: "sql_query (st_gate S) = Some S" for S
    by (simp add: st_gate_def)
  from a b c
    safety_gate [OF s, of "''SELECT updated_at FROM t''" "env_reply (Inr ''ok'')" "[]"]
    safety_gate [OF s, of "''drop table t''" "env_reply (Inr ''ok'')" "[]"]
  show ?thesis
    by simp
qed

text \<open>
  The check does not trim. The statement below begins with a blank, so its trimmed,
  upper-cased text begins with \<^verbatim>\<open>SELECT\<close>; it names the column \<^verbatim>\<open>updated_at\<close>,
  and the check rejects it.
\<close>

theorem safety_gate_trimmed_counterexample:
  "startswith (upper (strip '' SELECT updated_at FROM t'')) ''SELECT'' \<and>
   execute_sql_node (env_reply (Inr ''ok'')) (st_gate '' SELECT updated_at FROM t'') []
     = (no_update\<lparr>u_error := Some ''Unsafe SQL detected''\<rparr>, [])"
  by (simp add: execute_sql_node_def unsafe_sql_def dangerous_def st_gate_def initial_state_def
      str_defs)

text \<open>
  The rejection also holds when \<open>not beginning with SELECT\<close> is read of the trimmed
  text, since a statement that begins with \<^verbatim>\<open>SELECT\<close> untrimmed does so trimmed.
\<close>

lemma safety_gate_rejects_trimmed_reading:
  assumes "sql_query state = Some S" "\<not> startswith (upper (strip S)) ''SELECT''"
    and "list_ex (contains (upper S)) dangerous"
  shows "execute_sql_node E state h = (no_update\<lparr>u_error := Some ''Unsafe SQL detected''\<rparr>, h)"
proof -
  from assms(2) have "\<not> startswith (upper S) ''SELECT''"
    using select_survives_strip by blast
  with assms(3) have u: "unsafe_sql S"
    by (simp add: unsafe_sql_def)
  from assms(3) have "S \<noteq> []"
    by (auto simp: dangerous_def upper_def)
  with u assms(1) show ?thesis
    by (simp add: execute_sql_node_def)
qed

section \<open>C5: reads and writes in the executor\<close>

text \<open>The classifier of the executor, spelt out.\<close>

lemma is_read_prefixes:
  "is_read q \<longleftrightarrow>
      startswith (upper (strip q)) ''SELECT'' \<or> startswith (upper (strip q)) ''SHOW'' \<or>
      startswith (upper (strip q)) ''DESCRIBE'' \<or> startswith (upper (strip q)) ''DESC'' \<or>
      startswith (upper (strip q)) ''EXPLAIN''"
  by (simp add: is_read_def read_prefixes_def Let_def)

lemma execute_query_by_class:
  "(is_read q \<and> on_execute (cursor E h q) = None \<and> on_fetch (cursor E h q) = Inr (fetched, names)
      \<longrightarrow> execute_query E h q = ((True, Rows fetched, Some names), DbExecute q # h)) \<and>
   (\<not> is_read q \<and> on_execute (cursor E h q) = None \<and> on_commit (cursor E h q) = None
      \<longrightarrow> execute_query E h q =
            ((True, Text ''Query executed successfully'', None), DbCommit # DbExecute q # h)) \<and>
   (execute_query E h q = ((True, d, c), h')
      \<longrightarrow> (if is_read q then \<exists>fetched names. d = Rows fetched \<and> c = Some names
           else d = Text ''Query executed successfully'' \<and> c = None \<and> hd h' = DbCommit))"
  by (auto simp: execute_query_def run_cursor_def Let_def
      split: option.splits sum.splits if_splits prod.splits)

text \<open>
  C5. When the driver raises nothing on a statement whose trimmed, upper-cased text
  starts with \<^verbatim>\<open>SELECT\<close>, \<^verbatim>\<open>SHOW\<close>, \<^verbatim>\<open>DESCRIBE\<close>, \<^verbatim>\<open>DESC\<close> or
  \<^verbatim>\<open>EXPLAIN\<close>, the executor returns success, the fetched rows and the column names.
  When the driver raises nothing on a statement whose trimmed, upper-cased text starts
  with none of the five, the executor commits and returns success, the text
  \<^verbatim>\<open>Query executed successfully\<close> and no columns. Every successful return, also the
  one after a reconnect, has the shape of its class.
\<close>

theorem execute_query_classification:
  "((startswith (upper (strip q)) ''SELECT'' \<or> startswith (upper (strip q)) ''SHOW'' \<or>
     startswith (upper (strip q)) ''DESCRIBE'' \<or> startswith (upper (strip q)) ''DESC'' \<or>
     startswith (upper (strip q)) ''EXPLAIN'') \<and>
    on_execute (cursor E h q) = None \<and> on_fetch (cursor E h q) = Inr (fetched, names)
      \<longrightarrow> execute_query E h q = ((True, Rows fetched, Some names), DbExecute q # h)) \<and>
   (\<not> startswith (upper (strip q)) ''SELECT'' \<and> \<not> startswith (upper (strip q)) ''SHOW'' \<and>
    \<not> startswith (upper (strip q)) ''DESCRIBE'' \<and> \<not> startswith (upper (strip q)) ''DESC'' \<and>
    \<not> startswith (upper (strip q)) ''EXPLAIN'' \<and>
    on_execute (cursor E h q) = None \<and> on_commit (cursor E h q) = None
      \<longrightarrow> execute_query E h q =
            ((True, Text ''Query executed successfully'', None), DbCommit # DbExecute q # h)) \<and>
   (execute_query E h q = ((True, d, c), h')
      \<longrightarrow> (if startswith (upper (strip q)) ''SELECT'' \<or> startswith (upper (strip q)) ''SHOW'' \<or>
              startswith (upper (strip q)) ''DESCRIBE'' \<or> startswith (upper (strip q)) ''DESC'' \<or>
              startswith (upper (strip q)) ''EXPLAIN''
           then \<exists>fetched names. d = Rows fetched \<and> c = Some names
           else d = Text ''Query executed successfully'' \<and> c = None \<and> hd h' = DbCommit))"
  using execute_query_by_class [of q E h fetched names d c h']
  unfolding is_read_prefixes by blast

text \<open>
  One statement for each leading word, in upper case, in lower case, in mixed case and
  after blanks, and one write.
\<close>

theorem execute_query_classification_witness:
  "startswith (upper (strip ''SELECT 1'')) ''SELECT'' \<and>
   execute_query (env_reply (Inr ''ok'')) [] ''SELECT 1''
     = ((True, Rows [], Some [''id'']), [DbExecute ''SELECT 1'']) \<and>
   startswith (upper (strip ''  show tables'')) ''SHOW'' \<and>
   execute_query (env_reply (Inr ''ok'')) [] ''  show tables''
     = ((True, Rows [], Some [''id'']), [DbExecute ''  show tables'']) \<and>
   startswith (upper (strip ''Describe students'')) ''DESCRIBE'' \<and>
   execute_query (env_reply (Inr ''ok'')) [] ''Describe students''
     = ((True, Rows [], Some [''id'']), [DbExecute ''Describe students'']) \<and>
   startswith (upper (strip ''desc students'')) ''DESC'' \<and>
   execute_query (env_reply (Inr ''ok'')) [] ''desc students''
     = ((True, Rows [], Some [''id'']), [DbExecute ''desc students'']) \<and>
   startswith (upper (strip ''explain SELECT 1'')) ''EXPLAIN'' \<and>
   execute_query (env_reply (Inr ''ok'')) [] ''explain SELECT 1''
     = ((True, Rows [], Some [''id'']), [DbExecute ''explain SELECT 1'']) \<and>
   \<not> startswith (upper (strip ''UPDATE t SET x=1'')) ''SELECT'' \<and>
   \<not> startswith (upper (strip ''UPDATE t SET x=1'')) ''SHOW'' \<and>
   \<not> startswith (upper (strip ''UPDATE t SET x=1'')) ''DESCRIBE'' \<and>
   \<not> startswith (upper (strip ''UPDATE t SET x=1'')) ''DESC'' \<and>
   \<not> startswith (upper (strip ''UPDATE t SET x=1'')) ''EXPLAIN'' \<and>
   execute_query (env_reply (Inr ''ok'')) [] ''UPDATE t SET x=1''
     = ((True, Text ''Query executed successfully'', None),
        [DbCommit, DbExecute ''UPDATE t SET x=1''])"
proof -
  let ?E = "env_reply (Inr ''ok'')"
  have s1: "startswith (upper (strip ''SELECT 1'')) ''SELECT''"
    and s2: "startswith (upper (strip ''  show tables'')) ''SHOW''"
    and s3: "startswith (upper (strip ''Describe students'')) ''DESCRIBE''"
    and s4: "startswith (upper (strip ''desc students'')) ''DESC''"
    and s5: "startswith (upper (strip ''explain SELECT 1'')) ''EXPLAIN''"
    by (simp_all add: str_defs)
  have w: "\<not> startswith (upper (strip ''UPDATE t SET x=1'')) ''SELECT''"
    "\<not> startswith (upper (strip ''UPDATE t SET x=1'')) ''SHOW''"
    "\<not> startswith (upper (strip ''UPDATE t SET x=1'')) ''DESCRIBE''"
    "\<not> startswith (upper (strip ''UPDATE t SET x=1'')) ''DESC''"
    "\<not> startswith (upper (strip ''UPDATE t SET x=1'')) ''EXPLAIN''"
    by (simp_all add: str_defs)
  have c: "cursor ?E [] q = working [] [''id'']" for q
    by (simp add: env_defs env_reply_def)
  have f: "on_execute (working [] [''id'']) = None"
    "on_fetch (working [] [''id'']) = Inr ([], [''id''])"
    "on_commit (working [] [''id'']) = None"
    by (simp_all add: working_def)
  note t = execute_query_classification [where E = ?E and h = "[]" and fetched = "[]"
      and names = "[''id'']" and d = "Rows []" and c = None and h' = "[]"]
  from s1 t [where q = "''SELECT 1''"]
  have r1: "execute_query ?E [] ''SELECT 1'' = ((True, Rows [], Some [''id'']), [DbExecute ''SELECT 1''])"
    by (simp only: c f simp_thms)
  from s2 t [where q = "''  show tables''"]
  have r2: "execute_query ?E [] ''  show tables''
      = ((True, Rows [], Some [''id'']), [DbExecute ''  show tables''])"
    by (simp only: c f simp_thms)
  from s3 t [where q = "''Describe students''"]
  have r3: "execute_query ?E [] ''Describe students''
      = ((True, Rows [], Some [''id'']), [DbExecute ''Describe students''])"
    by (simp only: c f simp_thms)
  from s4 t [where q = "''desc students''"]
  have r4: "execute_query ?E [] ''desc students''
      = ((True, Rows [], Some [''id'']), [DbExecute ''desc students''])"
    by (simp only: c f simp_thms)
  from s5 t [where q = "''explain SELECT 1''"]
  have r5: "execute_query ?E [] ''explain SELECT 1''
      = ((True, Rows [], Some [''id'']), [DbExecute ''explain SELECT 1''])"
    by (simp only: c f simp_thms)
  from w t [where q = "''UPDATE t SET x=1''"]
  have r6: "execute_query ?E [] ''UPDATE t SET x=1''
      = ((True, Text ''Query executed successfully'', None),
         [DbCommit, DbExecute ''UPDATE t SET x=1''])"
    by (simp only: c f simp_thms)
  from s1 s2 s3 s4 s5 w r1 r2 r3 r4 r5 r6 show ?thesis
    by (intro conjI)
qed

section \<open>Evaluation rules of the nodes\<close>

lemmas node_defs =
  execute_sql_node_def execute_query_def run_cursor_def is_read_def read_prefixes_def
  connection_lost_def unsafe_sql_def dangerous_def clean_sql_def execution_update_def
  generate_sql_node_def format_answer_node_def evaluate_node_def check_execution_def merge_def
  add_messages_def

lemmas state_defs = st_gate_def initial_state_def no_update_def

section \<open>C9: the repaired statement is not checked\<close>

text \<open>
  C9. The safety check is made once, on the statement found in the state. When that
  statement fails and the budget allows a repair, the repaired statement is passed to
  the driver as the backend gave it: also one that does not begin with \<^verbatim>\<open>SELECT\<close>
  and contains a mutation keyword. The node does not answer \<^verbatim>\<open>Unsafe SQL detected\<close>,
  and when the driver runs the repaired statement, the node stores it as the
  \<^verbatim>\<open>sql_query\<close> of the state, with no error.
\<close>

theorem repaired_sql_not_checked:
  assumes "sql_query state = Some sql" "sql \<noteq> []" "\<not> unsafe_sql sql" "retry_count state < 2"
    and "execute_query E h sql = ((False, dat, cols), h1)"
    and "llm E h1 (FixPrompt dat sql (schema state)) = Inr raw"
    and "clean_sql raw = Inr fixed_sql"
    and "unsafe_sql fixed_sql"
  shows "DbExecute fixed_sql \<in> set (snd (execute_sql_node E state h)) \<and>
         u_error (fst (execute_sql_node E state h)) \<noteq> Some ''Unsafe SQL detected'' \<and>
         (\<forall>d2 c2 h3. execute_query E (LlmCall (FixPrompt dat sql (schema state)) # h1) fixed_sql
              = ((True, d2, c2), h3) \<longrightarrow>
            u_sql_query (fst (execute_sql_node E state h)) = Some fixed_sql \<and>
            u_error (fst (execute_sql_node E state h)) = None)"
proof -
  obtain s2 d2 c2 h3 where
    e: "execute_query E (LlmCall (FixPrompt dat sql (schema state)) # h1) fixed_sql
          = ((s2, d2, c2), h3)"
    by (metis prod_cases3 surj_pair)
  then have m: "DbExecute fixed_sql \<in> set h3"
    by (rule execute_query_logs)
  show ?thesis
    using assms e m
    by (auto simp: execute_sql_node_def Let_def execution_update_error no_update_def)
qed

text \<open>The whole step, when the backend repairs a misspelt table by dropping another.\<close>

lemma repair_drop_run:
  "execute_sql_node (env_repair ''DROP TABLE students'') st_typo [] =
     (no_update\<lparr>u_results := Some
         \<lparr>columns = None, rows = Text ''Query executed successfully'', row_count = 27\<rparr>,
        u_sql_query := Some ''DROP TABLE students'', u_retry_count := Some 1,
        u_messages := [AIMessage ''Query executed after retry'']\<rparr>,
      [DbCommit, DbExecute ''DROP TABLE students'',
       LlmCall (FixPrompt (Text ''Unknown table studnts'') ''SELECT * FROM studnts'' ''s''),
       DbExecute ''SELECT * FROM studnts''])"
  by (simp add: node_defs st_typo_def state_defs env_defs env_repair_def str_defs)

theorem repaired_sql_not_checked_witness:
  "\<not> startswith (upper ''DROP TABLE students'') ''SELECT'' \<and>
   contains (upper ''DROP TABLE students'') ''DROP'' \<and>
   DbExecute ''DROP TABLE students''
     \<in> set (snd (execute_sql_node (env_repair ''DROP TABLE students'') st_typo [])) \<and>
   u_sql_query (fst (execute_sql_node (env_repair ''DROP TABLE students'') st_typo []))
     = Some ''DROP TABLE students'' \<and>
   u_error (fst (execute_sql_node (env_repair ''DROP TABLE students'') st_typo [])) = None"
proof -
  let ?E = "env_repair ''DROP TABLE students''"
  let ?p = "FixPrompt (Text ''Unknown table studnts'') ''SELECT * FROM studnts'' (schema st_typo)"
  have h1: "sql_query st_typo = Some ''SELECT * FROM studnts''"
    by (simp add: st_typo_def state_defs)
  have h2: "''SELECT * FROM studnts'' \<noteq> []"
    by simp
  have h3: "\<not> unsafe_sql ''SELECT * FROM studnts''"
    by (simp add: unsafe_sql_def str_defs)
  have h4: "retry_count st_typo < 2"
    by (simp add: st_typo_def state_defs)
  have h5: "execute_query ?E [] ''SELECT * FROM studnts''
      = ((False, Text ''Unknown table studnts'', None), [DbExecute ''SELECT * FROM studnts''])"
    by (simp add: execute_query_def run_cursor_def connection_lost_def env_defs env_repair_def str_defs)
  have h6: "llm ?E [DbExecute ''SELECT * FROM studnts''] ?p = Inr ''DROP TABLE students''"
    by (simp add: env_defs env_repair_def)
  have h7: "clean_sql ''DROP TABLE students'' = Inr ''DROP TABLE students''"
    by (simp add: clean_sql_def str_defs)
  have a: "\<not> startswith (upper ''DROP TABLE students'') ''SELECT''"
    and b: "contains (upper ''DROP TABLE students'') ''DROP''"
    by (simp_all add: str_defs)
  then have h8: "unsafe_sql ''DROP TABLE students''"
    by (simp add: unsafe_sql_def dangerous_def)
  have h9: "execute_query ?E (LlmCall ?p # [DbExecute ''SELECT * FROM studnts''])
        ''DROP TABLE students''
      = ((True, Text ''Query executed successfully'', None),
         [DbCommit, DbExecute ''DROP TABLE students'', LlmCall ?p,
          DbExecute ''SELECT * FROM studnts''])"
    by (simp add: execute_query_def run_cursor_def is_read_def read_prefixes_def env_defs env_repair_def str_defs)
  from repaired_sql_not_checked [OF h1 h2 h3 h4 h5 h6 h7 h8] h9 a b
  show ?thesis
    by blast
qed

section \<open>C6: the shape of the stored results\<close>

text \<open>In every \<^verbatim>\<open>results\<close> that the execution node stores, the count is the length.\<close>

lemma stored_row_count:
  "u_results (fst (execute_sql_node E state h)) = Some res \<Longrightarrow> row_count res = len (rows res)"
  by (auto simp: execute_sql_node_def execution_update_def Let_def no_update_def
      split: if_splits option.splits sum.splits prod.splits)

text \<open>A statement that is not a read and runs at the first attempt is stored as empty.\<close>

lemma direct_path_write_is_empty:
  "execute_sql_node (env_reply (Inr ''ok'')) (st_gate ''USE school'') [] =
     (no_update\<lparr>u_results := Some \<lparr>columns = Some [], rows = Rows [], row_count = 0\<rparr>,
        u_messages := [AIMessage ''Query executed successfully'']\<rparr>,
      [DbCommit, DbExecute ''USE school''])"
  by (simp add: node_defs state_defs env_defs env_reply_def str_defs)

text \<open>
  C6. A statement that is not a read is to be stored with empty columns, no rows and
  the count 0, also when it ran as a repair. The repair path stores the triple of the
  executor as it is: when the backend repairs the statement into \<^verbatim>\<open>USE school\<close>,
  the stored columns are \<^verbatim>\<open>None\<close>, the stored rows are the text
  \<^verbatim>\<open>Query executed successfully\<close> and the count is 27, the length of that text.
\<close>

theorem repair_path_stores_write_message_as_rows:
  "execute_sql_node (env_repair ''USE school'') st_typo [] =
     (no_update\<lparr>u_results := Some
         \<lparr>columns = None, rows = Text ''Query executed successfully'', row_count = 27\<rparr>,
        u_sql_query := Some ''USE school'', u_retry_count := Some 1,
        u_messages := [AIMessage ''Query executed after retry'']\<rparr>,
      [DbCommit, DbExecute ''USE school'',
       LlmCall (FixPrompt (Text ''Unknown table studnts'') ''SELECT * FROM studnts'' ''s''),
       DbExecute ''SELECT * FROM studnts''])"
  by (simp add: node_defs st_typo_def state_defs env_defs env_repair_def str_defs)

section \<open>What the graph does with its nodes\<close>

text \<open>
  Every node that \<^verbatim>\<open>create_graph\<close> registers is called without \<^verbatim>\<open>llm\<close>: a run
  ends in the first node, with \<^verbatim>\<open>TypeError\<close>, the state it started from, no
  snapshot and no call of a collaborator.
\<close>

lemma graph_node_raises: "nd \<noteq> DONE \<Longrightarrow> graph_node E nd state h = Inl TypeError"
  by (cases nd) (simp_all add: missing_argument_def)

lemma run_graph_raises:
  "nd \<noteq> DONE \<Longrightarrow> run_graph E (Suc n) nd state cps h = Some (Raised TypeError state cps h)"
  by (cases nd) (simp_all add: missing_argument_def)

text \<open>
  The update of the formatter for a state with an error: the answer is the error text,
  and the message list holds the class \<^verbatim>\<open>AIMessage\<close>, which the reducer of the
  message log does not take.
\<close>

lemma formatter_error_update:
  assumes "error state = Some e" "e \<noteq> []"
  shows "format_answer_node E state h
           = (no_update\<lparr>u_answer := Some (''I encountered an error '' @ e),
                        u_messages := [AIMessage_class]\<rparr>, h)"
  using assms by (simp add: format_answer_node_def)

lemma formatter_error_update_not_merged:
  assumes "truthy (error state)"
  shows "merge state (fst (format_answer_node E state h)) = Inl NotImplementedError"
  using assms by (simp add: format_answer_node_def merge_def add_messages_def no_update_def)


section \<open>C10: the evaluator on a failed run\<close>

text \<open>The evaluator skips exactly when the answer or the statement is absent or empty.\<close>

lemma evaluate_node_gate:
  "(\<not> truthy (answer state) \<or> \<not> truthy (sql_query state)
      \<longrightarrow> evaluate_node E state h = (no_update\<lparr>u_messages := [AIMessage ''Skipping evaluation'']\<rparr>, h)) \<and>
   (truthy (answer state) \<and> truthy (sql_query state)
      \<longrightarrow> (\<exists>smp. snd (evaluate_node E state h) = ScoreCall smp # h))"
  by (cases "answer state"; cases "sql_query state")
     (auto simp: evaluate_node_def Let_def split: sum.splits)

text \<open>
  The evaluator by itself, on a state with an error, the answer the formatter returns
  for it, a statement and no results: it calls the scorer with a reference that ends in
  \<^verbatim>\<open>None\<close>, and its update carries the score.
\<close>

lemma evaluate_node_on_failed_state:
  assumes "answer state = Some a" "a \<noteq> []" "sql_query state = Some sql" "sql \<noteq> []"
    and "results state = None"
    and "smp = \<lparr>user_input = user_query state, response = a,
            reference = ''SQL: '' @ sql @ [CHR 0x0A] @
              ''Results Retrieved after execution of Query: None''\<rparr>"
    and "scorer E h smp = Inr score"
  shows "evaluate_node E state h
           = (no_update\<lparr>u_evaluation_score := Some score,
                        u_messages := [AIMessage (''Evaluation: '' @ str_score E score)]\<rparr>,
              ScoreCall smp # h)"
  using assms by (simp add: evaluate_node_def Let_def)

text \<open>
  C10. A run in which execution has failed is to go on through the formatter to the
  evaluator and may end with a score. In the state after two failed rounds the
  formatter returns the error text as the answer, with the class \<^verbatim>\<open>AIMessage\<close> in
  its message list; writing that update into the state raises
  \<^verbatim>\<open>NotImplementedError\<close>, so the answer never reaches the state that the evaluator
  reads. The run of the graph itself raises \<^verbatim>\<open>TypeError\<close> in its first node and
  calls no collaborator, the scorer included.
\<close>

theorem failed_run_never_reaches_evaluator:
  "format_answer_node env_db_down st_failed_twice []
     = (no_update\<lparr>u_answer := Some
           ''I encountered an error Execution failed : Unknown database school'',
         u_messages := [AIMessage_class]\<rparr>, []) \<and>
   merge st_failed_twice (fst (format_answer_node env_db_down st_failed_twice []))
     = Inl NotImplementedError \<and>
   run_graph env_db_down 25 GENERATE_SQL
       (initial_state ''List the students'' ''TABLE: students'') [] []
     = Some (Raised TypeError (initial_state ''List the students'' ''TABLE: students'') [] [])"
proof -
  have e: "error st_failed_twice = Some ''Execution failed : Unknown database school''"
    by (simp add: st_failed_twice_def st_failed_once_def initial_state_def)
  have a: "format_answer_node env_db_down st_failed_twice []
     = (no_update\<lparr>u_answer := Some
           ''I encountered an error Execution failed : Unknown database school'',
         u_messages := [AIMessage_class]\<rparr>, [])"
    using formatter_error_update [OF e, of env_db_down "[]"] by simp
  have b: "merge st_failed_twice (fst (format_answer_node env_db_down st_failed_twice []))
     = Inl NotImplementedError"
    by (rule formatter_error_update_not_merged) (simp add: e)
  have "(25::nat) = Suc 24"
    by simp
  then have c: "run_graph env_db_down 25 GENERATE_SQL
       (initial_state ''List the students'' ''TABLE: students'') [] []
     = Some (Raised TypeError (initial_state ''List the students'' ''TABLE: students'') [] [])"
    by (simp only: run_graph_raises node.distinct not_False_eq_True)
  from a b c show ?thesis
    by (intro conjI)
qed

section \<open>C2: an error that a later success does not clear\<close>

text \<open>
  Why the error stays: an update either leaves the field alone or writes a non-empty
  error over it, and after a success that writes neither an error nor a
  \<^verbatim>\<open>retry_count\<close> the router, which reads the old error, goes back to generation.
\<close>

lemma error_never_cleared:
  "merge s u = Inr s' \<Longrightarrow> truthy (error s) \<Longrightarrow> u_error u = None \<or> truthy (u_error u) \<Longrightarrow>
   truthy (error s')"
  by (cases "u_error u") (auto simp: merge_def split: sum.splits)

lemma stale_error_routes_back:
  "merge s u = Inr s' \<Longrightarrow> truthy (error s) \<Longrightarrow> retry_count s < 2 \<Longrightarrow> u_error u = None \<Longrightarrow>
   u_retry_count u = None \<Longrightarrow> check_execution s' = GENERATE_SQL"
  by (auto simp: check_execution_def merge_def split: sum.splits)

text \<open>The updates of the execution node that store results write no error.\<close>

lemma results_update_keeps_error:
  "u_results (fst (execute_sql_node E state h)) = Some res \<Longrightarrow>
   u_error (fst (execute_sql_node E state h)) = None"
  by (auto simp: execute_sql_node_def execution_update_def Let_def no_update_def
      split: if_splits option.splits sum.splits prod.splits)

text \<open>
  C2. An error set by a failed execution is to be superseded when a later attempt
  within the budget succeeds. In the state below a first round has failed and set the
  error. The execution node now fails on the regenerated statement and succeeds on
  its repair: its update stores the row and the repaired statement and does not touch
  the error. In the state with that update written, the error of the first round is
  still set, the router goes to the formatter, and the formatter answers with the old
  error, not with the row.
\<close>

theorem stale_error_outlives_successful_repair:
  "execute_sql_node env_one_table st_stale [] =
     (no_update\<lparr>u_results := Some
         \<lparr>columns = Some [''name''], rows = Rows [[''Ann'']], row_count = 1\<rparr>,
        u_sql_query := Some ''SELECT name FROM students'', u_retry_count := Some 2,
        u_messages := [AIMessage ''Query executed after retry'']\<rparr>,
      [DbExecute ''SELECT name FROM students'',
       LlmCall (FixPrompt (Text ''Unknown table'') ''SELECT name FROM student''
         ''TABLE: students''),
       DbExecute ''SELECT name FROM student'']) \<and>
   merge st_stale (fst (execute_sql_node env_one_table st_stale [])) = Inr st_repaired \<and>
   error st_repaired = Some ''Execution failed : Unknown table'' \<and>
   results st_repaired
     = Some \<lparr>columns = Some [''name''], rows = Rows [[''Ann'']], row_count = 1\<rparr> \<and>
   check_execution st_repaired = FORMAT_ANSWER \<and>
   format_answer_node env_one_table st_repaired [] =
     (no_update\<lparr>u_answer := Some ''I encountered an error Execution failed : Unknown table'',
        u_messages := [AIMessage_class]\<rparr>, [])"
proof -
  have x: "execute_sql_node env_one_table st_stale [] =
     (no_update\<lparr>u_results := Some
         \<lparr>columns = Some [''name''], rows = Rows [[''Ann'']], row_count = 1\<rparr>,
        u_sql_query := Some ''SELECT name FROM students'', u_retry_count := Some 2,
        u_messages := [AIMessage ''Query executed after retry'']\<rparr>,
      [DbExecute ''SELECT name FROM students'',
       LlmCall (FixPrompt (Text ''Unknown table'') ''SELECT name FROM student''
         ''TABLE: students''),
       DbExecute ''SELECT name FROM student''])"
    by (simp add: node_defs st_stale_def state_defs env_defs env_one_table_def str_defs)
  have m: "merge st_stale (fst (execute_sql_node env_one_table st_stale [])) = Inr st_repaired"
    unfolding x by (simp add: merge_def add_messages_def st_repaired_def st_stale_def state_defs)
  have e: "error st_repaired = Some ''Execution failed : Unknown table''"
    and r: "results st_repaired
     = Some \<lparr>columns = Some [''name''], rows = Rows [[''Ann'']], row_count = 1\<rparr>"
    and k: "check_execution st_repaired = FORMAT_ANSWER"
    by (simp_all add: st_repaired_def st_stale_def state_defs check_execution_def)
  have f: "format_answer_node env_one_table st_repaired [] =
     (no_update\<lparr>u_answer := Some ''I encountered an error Execution failed : Unknown table'',
        u_messages := [AIMessage_class]\<rparr>, [])"
    using formatter_error_update [OF e, of env_one_table "[]"] by simp
  from x m e r k f show ?thesis
    by (intro conjI)
qed

text \<open>
  When the regenerated statement runs at once, the update stores the rows alone, and
  the router sends the state, whose old error is still set, back to generation.
\<close>

lemma stale_error_after_direct_success:
  "execute_sql_node env_one_table (st_stale\<lparr>sql_query := Some ''SELECT name FROM students''\<rparr>) [] =
     (no_update\<lparr>u_results := Some
         \<lparr>columns = Some [''name''], rows = Rows [[''Ann'']], row_count = 1\<rparr>,
        u_messages := [AIMessage ''Query executed successfully'']\<rparr>,
      [DbExecute ''SELECT name FROM students'']) \<and>
   map_sum id check_execution
     (merge (st_stale\<lparr>sql_query := Some ''SELECT name FROM students''\<rparr>)
        (fst (execute_sql_node env_one_table
           (st_stale\<lparr>sql_query := Some ''SELECT name FROM students''\<rparr>) [])))
     = Inr GENERATE_SQL"
  by (simp add: node_defs st_stale_def state_defs env_defs env_one_table_def str_defs)

section \<open>Rounds in which every execution fails\<close>

lemma llm_calls_simps [simp]:
  "llm_calls [] = 0"
  "llm_calls (LlmCall p # h) = Suc (llm_calls h)"
  "llm_calls (DbExecute q # h) = llm_calls h"
  "llm_calls (DbCommit # h) = llm_calls h"
  "llm_calls (ScoreCall smp # h) = llm_calls h"
  by (simp_all add: llm_calls_def)

lemma llm_calls_execute_query: "execute_query E h q = (t, h') \<Longrightarrow> llm_calls h' = llm_calls h"
  by (auto simp: execute_query_def run_cursor_def Let_def
      split: option.splits sum.splits if_splits prod.splits)

text \<open>
  The execution node by itself, when the executor fails on every call: it reports the
  failure, counts one retry, and calls the backend once while the budget lasts.
\<close>

lemma execute_sql_node_failing:
  assumes fail: "\<And>h q. \<not> fst (fst (execute_query E h q))"
    and "sql_query state = Some sql" "sql \<noteq> []" "\<not> unsafe_sql sql"
  shows "\<exists>msg h'. execute_sql_node E state h
            = (no_update\<lparr>u_error := Some (''Execution failed : '' @ msg),
                         u_retry_count := Some (retry_count state + 1),
                         u_messages := [AIMessage (''Error: '' @ msg)]\<rparr>, h') \<and>
          llm_calls h' = llm_calls h + (if retry_count state < 2 then 1 else 0)"
proof -
  obtain dat cols h1 where e1: "execute_query E h sql = ((False, dat, cols), h1)"
    using fail [of h sql] by (cases "execute_query E h sql") auto
  then have c1: "llm_calls h1 = llm_calls h"
    by (rule llm_calls_execute_query)
  let ?p = "FixPrompt dat sql (schema state)"
  have upd: "execution_update E rc (False, d, c)
      = no_update\<lparr>u_error := Some (''Execution failed : '' @ str_data E d),
                   u_retry_count := Some (rc + 1),
                   u_messages := [AIMessage (''Error: '' @ str_data E d)]\<rparr>"
    for rc d c
    by (simp add: execution_update_def)
  show ?thesis
  proof (cases "retry_count state < 2")
    case False
    with assms e1 c1 upd show ?thesis
      by (auto simp: execute_sql_node_def)
  next
    case True
    show ?thesis
    proof (cases "llm E h1 ?p")
      case (Inl err)
      with True assms e1 c1 upd show ?thesis
        by (auto simp: execute_sql_node_def Let_def)
    next
      case (Inr raw)
      show ?thesis
      proof (cases "clean_sql raw")
        case (Inl err)
        with Inr True assms e1 c1 upd show ?thesis
          by (auto simp: execute_sql_node_def Let_def)
      next
        case fixed: (Inr fixed_sql)
        obtain d2 c2 h3 where
          e2: "execute_query E (LlmCall ?p # h1) fixed_sql = ((False, d2, c2), h3)"
          using fail [of "LlmCall ?p # h1" fixed_sql]
          by (cases "execute_query E (LlmCall ?p # h1) fixed_sql") auto
        then have "llm_calls h3 = llm_calls (LlmCall ?p # h1)"
          by (rule llm_calls_execute_query)
        with fixed Inr True assms e1 e2 c1 upd show ?thesis
          by (auto simp: execute_sql_node_def Let_def)
      qed
    qed
  qed
qed

text \<open>
  The example database that is down is of this kind: every answer to the generation
  prompt passes the safety check, and the executor fails on every call.
\<close>

lemma env_db_down_generates:
  "\<exists>raw sql. llm env_db_down h (GeneratePrompt sch q) = Inr raw \<and>
     clean_sql raw = Inr sql \<and> sql \<noteq> [] \<and> \<not> unsafe_sql sql"
  by (simp add: env_defs env_db_down_def clean_sql_def unsafe_sql_def str_defs)

lemma env_db_down_fails: "\<not> fst (fst (execute_query env_db_down h q))"
  by (simp add: execute_query_def run_cursor_def connection_lost_def env_defs env_db_down_def
      str_defs)


section \<open>C3: the retry bound\<close>

text \<open>
  C3. A run with a generator whose statements pass the safety check and an executor
  that always fails is to end at \<^verbatim>\<open>END\<close> with an error and a \<^verbatim>\<open>retry_count\<close> of
  at most 2. Whatever the collaborators do, the run of the graph ends in its first
  node: \<^verbatim>\<open>generate_sql\<close> is called without \<^verbatim>\<open>llm\<close> and raises \<^verbatim>\<open>TypeError\<close>.
  The run does end, for every bound of at least one node, but not at \<^verbatim>\<open>END\<close>: no
  statement is generated, no error is set, no snapshot is saved and no collaborator is
  called.
\<close>

theorem every_run_raises_in_first_node:
  "run_graph E (Suc n) GENERATE_SQL (initial_state q sch) [] []
     = Some (Raised TypeError (initial_state q sch) [] [])"
  by (simp add: missing_argument_def)

section \<open>C4: the end of a run whose executions all fail\<close>


text \<open>
  The other case of the claim, a backend that fails on every generation: the state
  then has no statement, the execution node reports \<^verbatim>\<open>No SQL to execute\<close> and counts
  no retry, and the router goes back to generation.
\<close>

lemma no_sql_counts_no_retry:
  assumes "sql_query state = None" "retry_count state < 2"
    and "merge state (fst (execute_sql_node E state h)) = Inr state'"
  shows "execute_sql_node E state h = (no_update\<lparr>u_error := Some ''No SQL to execute''\<rparr>, h) \<and>
         retry_count state' = retry_count state \<and> check_execution state' = GENERATE_SQL"
  using assms
  by (auto simp: execute_sql_node_def merge_def add_messages_def no_update_def check_execution_def)




end
